theory Spec2Isabelle
  imports Main
begin

section \<open>Python values, strings and dictionaries\<close>

text \<open>
  A Python \<open>str\<close> is modelled as a \<open>string\<close>; one \<open>char\<close> stands for one code point,
  so the model covers the code points below 256. Record values are the loosely typed
  scalars the services pass around: \<open>None\<close>, strings, integers and booleans (floats and
  nested containers are not modelled). A \<open>dict\<close> is an association list in insertion
  order whose keys are distinct.
\<close>

datatype pyval = PNone | PStr string | PInt int | PBool bool

type_synonym pydict = "(string \<times> pyval) list"

abbreviation LF :: char where "LF \<equiv> CHR 0x0A"
abbreviation CR :: char where "CR \<equiv> CHR 0x0D"
abbreviation delimiter :: char where "delimiter \<equiv> CHR '',''"
abbreviation quotechar :: char where "quotechar \<equiv> CHR 0x22"

definition digit_char :: "nat \<Rightarrow> char" where
  "digit_char d = ''0123456789'' ! d"

function str_nat :: "nat \<Rightarrow> string" where
  "str_nat n = (if n < 10 then [digit_char n] else str_nat (n div 10) @ [digit_char (n mod 10)])"
  by pat_completeness auto
termination
  by (relation "measure id") auto

declare str_nat.simps [simp del]

definition str_int :: "int \<Rightarrow> string" where
  "str_int i = (if i < 0 then CHR ''-'' # str_nat (nat (- i)) else str_nat (nat i))"

text \<open>\<open>str(v)\<close> for the modelled scalars.\<close>

fun py_str :: "pyval \<Rightarrow> string" where
  "py_str PNone = ''None''"
| "py_str (PStr s) = s"
| "py_str (PInt i) = str_int i"
| "py_str (PBool b) = (if b then ''True'' else ''False'')"

text \<open>\<open>d.get(k, default)\<close>, \<open>d[k] = v\<close> and \<open>dict(pairs)\<close>: a later pair with a key already
  present replaces the value and keeps the key's position.\<close>

definition dict_get :: "('k \<times> 'v) list \<Rightarrow> 'k \<Rightarrow> 'v \<Rightarrow> 'v" where
  "dict_get d k dflt = (case map_of d k of None \<Rightarrow> dflt | Some v \<Rightarrow> v)"

fun dict_set :: "('k \<times> 'v) list \<Rightarrow> 'k \<Rightarrow> 'v \<Rightarrow> ('k \<times> 'v) list" where
  "dict_set [] k v = [(k, v)]"
| "dict_set ((k', v') # d) k v = (if k' = k then (k, v) # d else (k', v') # dict_set d k v)"

definition py_dict :: "('k \<times> 'v) list \<Rightarrow> ('k \<times> 'v) list" where
  "py_dict pairs = foldl (\<lambda>d (k, v). dict_set d k v) [] pairs"

text \<open>\<open>str.isspace\<close> on the code points below 256, and \<open>str.strip()\<close>.\<close>

definition py_isspace :: "char \<Rightarrow> bool" where
  "py_isspace c \<longleftrightarrow> (of_char c :: nat) \<in> {9, 10, 11, 12, 13, 28, 29, 30, 31, 32, 133, 160}"

definition py_strip :: "string \<Rightarrow> string" where
  "py_strip s = rev (dropWhile py_isspace (rev (dropWhile py_isspace s)))"

text \<open>\<open>needle in haystack\<close> on strings.\<close>

fun starts_with :: "string \<Rightarrow> string \<Rightarrow> bool" where
  "starts_with [] s = True"
| "starts_with (p # ps) [] = False"
| "starts_with (p # ps) (c # cs) = (p = c \<and> starts_with ps cs)"

fun py_in :: "string \<Rightarrow> string \<Rightarrow> bool" where
  "py_in needle [] = (needle = [])"
| "py_in needle (c # cs) = (starts_with needle (c # cs) \<or> py_in needle cs)"

section \<open>The csv module as the data handler uses it\<close>

text \<open>
  \<open>csv.DictWriter(output, fieldnames, lineterminator='\n', extrasaction='ignore')\<close> and
  \<open>csv.DictReader(StringIO(csv_string))\<close> of CPython 3.11, in the default (excel) dialect:
  delimiter comma, quote character double quote, doubled quotes, minimal quoting, no
  escape character, not strict.
\<close>

subsection \<open>Writer\<close>

definition needs_quoting :: "char \<Rightarrow> bool" where
  "needs_quoting c \<longleftrightarrow> c = delimiter \<or> c = quotechar \<or> c = LF \<or> c = CR"

fun join_append_data :: "string \<Rightarrow> string" where
  "join_append_data [] = []"
| "join_append_data (c # cs) = (if c = quotechar then [quotechar, c] else [c]) @ join_append_data cs"

definition join_append :: "string \<Rightarrow> bool \<Rightarrow> string" where
  "join_append fld quoted =
     (let q = quoted \<or> (\<exists>c \<in> set fld. needs_quoting c)
      in (if q then [quotechar] else []) @ join_append_data fld @ (if q then [quotechar] else []))"

fun join_fields :: "string list \<Rightarrow> string" where
  "join_fields [] = []"
| "join_fields [f] = join_append f False"
| "join_fields (f # fs) = join_append f False @ [delimiter] @ join_fields fs"

text \<open>A row whose text would be empty (a single empty field) is written as a quoted
  empty field, so that it is not read back as a blank line.\<close>

definition csv_writerow :: "string list \<Rightarrow> string" where
  "csv_writerow cells =
     (let rec = join_fields cells
      in (if cells \<noteq> [] \<and> rec = [] then join_append [] True else rec) @ [LF])"

text \<open>The writer renders \<open>None\<close> as the empty field and everything else with \<open>str\<close>.\<close>

fun csv_cell :: "pyval \<Rightarrow> string" where
  "csv_cell PNone = []"
| "csv_cell v = py_str v"

definition dict_to_list :: "string list \<Rightarrow> pydict \<Rightarrow> pyval list" where
  "dict_to_list fieldnames rowdict = map (\<lambda>key. dict_get rowdict key (PStr [])) fieldnames"

definition dw_writerow :: "string list \<Rightarrow> pydict \<Rightarrow> string" where
  "dw_writerow fieldnames rowdict = csv_writerow (map csv_cell (dict_to_list fieldnames rowdict))"

definition dw_writeheader :: "string list \<Rightarrow> string" where
  "dw_writeheader fieldnames = dw_writerow fieldnames (py_dict (zip fieldnames (map PStr fieldnames)))"

definition dw_writerows :: "string list \<Rightarrow> pydict list \<Rightarrow> string" where
  "dw_writerows fieldnames rowdicts = concat (map (dw_writerow fieldnames) rowdicts)"

subsection \<open>Reader\<close>

datatype csv_error = FieldLimit | NewlineInUnquotedField

datatype parser_state =
  START_RECORD | START_FIELD | IN_FIELD | IN_QUOTED_FIELD | QUOTE_IN_QUOTED_FIELD | EAT_CRNL

record reader_obj =
  p_state :: parser_state
  p_field :: string
  p_fields :: "string list"

definition field_limit :: int where
  "field_limit = 131072"

definition parse_reset :: reader_obj where
  "parse_reset = \<lparr>p_state = START_RECORD, p_field = [], p_fields = []\<rparr>"

definition parse_save_field :: "reader_obj \<Rightarrow> reader_obj" where
  "parse_save_field r = r\<lparr>p_fields := p_fields r @ [p_field r], p_field := []\<rparr>"

definition parse_add_char :: "reader_obj \<Rightarrow> char \<Rightarrow> csv_error + reader_obj" where
  "parse_add_char r c =
     (if field_limit \<le> int (length (p_field r)) then Inl FieldLimit else Inr (r\<lparr>p_field := p_field r @ [c]\<rparr>))"

definition set_state :: "parser_state \<Rightarrow> csv_error + reader_obj \<Rightarrow> csv_error + reader_obj" where
  "set_state s x = (case x of Inl e \<Rightarrow> Inl e | Inr r \<Rightarrow> Inr (r\<lparr>p_state := s\<rparr>))"

definition is_eol :: "char option \<Rightarrow> bool" where
  "is_eol c \<longleftrightarrow> c = None \<or> c = Some LF \<or> c = Some CR"

definition after_eol :: "char option \<Rightarrow> parser_state" where
  "after_eol c = (if c = None then START_RECORD else EAT_CRNL)"

text \<open>One step of the parser; \<open>None\<close> is the end-of-line event the reader feeds after
  the last character of every line.\<close>

definition start_field :: "reader_obj \<Rightarrow> char option \<Rightarrow> csv_error + reader_obj" where
  "start_field r c =
     (if is_eol c then Inr ((parse_save_field r)\<lparr>p_state := after_eol c\<rparr>)
      else if c = Some quotechar then Inr (r\<lparr>p_state := IN_QUOTED_FIELD\<rparr>)
      else if c = Some delimiter then Inr ((parse_save_field r)\<lparr>p_state := START_FIELD\<rparr>)
      else set_state IN_FIELD (parse_add_char r (the c)))"

definition parse_process_char :: "reader_obj \<Rightarrow> char option \<Rightarrow> csv_error + reader_obj" where
  "parse_process_char r c =
     (case p_state r of
        START_RECORD \<Rightarrow>
          (if c = None then Inr r
           else if c = Some LF \<or> c = Some CR then Inr (r\<lparr>p_state := EAT_CRNL\<rparr>)
           else start_field r c)
      | START_FIELD \<Rightarrow> start_field r c
      | IN_FIELD \<Rightarrow>
          (if is_eol c then Inr ((parse_save_field r)\<lparr>p_state := after_eol c\<rparr>)
           else if c = Some delimiter then Inr ((parse_save_field r)\<lparr>p_state := START_FIELD\<rparr>)
           else parse_add_char r (the c))
      | IN_QUOTED_FIELD \<Rightarrow>
          (if c = None then Inr r
           else if c = Some quotechar then Inr (r\<lparr>p_state := QUOTE_IN_QUOTED_FIELD\<rparr>)
           else parse_add_char r (the c))
      | QUOTE_IN_QUOTED_FIELD \<Rightarrow>
          (if c = Some quotechar then set_state IN_QUOTED_FIELD (parse_add_char r quotechar)
           else if c = Some delimiter then Inr ((parse_save_field r)\<lparr>p_state := START_FIELD\<rparr>)
           else if is_eol c then Inr ((parse_save_field r)\<lparr>p_state := after_eol c\<rparr>)
           else set_state IN_FIELD (parse_add_char r (the c)))
      | EAT_CRNL \<Rightarrow>
          (if c = Some LF \<or> c = Some CR then Inr r
           else if c = None then Inr (r\<lparr>p_state := START_RECORD\<rparr>)
           else Inl NewlineInUnquotedField))"

text \<open>Iterating \<open>StringIO(csv_string)\<close> yields the lines, each with its terminating line feed.\<close>

fun split_lines :: "string \<Rightarrow> string list" where
  "split_lines [] = []"
| "split_lines (c # cs) =
     (if c = LF then [c] # split_lines cs
      else (case split_lines cs of [] \<Rightarrow> [[c]] | l # ls \<Rightarrow> (c # l) # ls))"

fun process_chars :: "reader_obj \<Rightarrow> string \<Rightarrow> csv_error + reader_obj" where
  "process_chars r [] = Inr r"
| "process_chars r (c # cs) =
     (case parse_process_char r (Some c) of Inl e \<Rightarrow> Inl e | Inr r' \<Rightarrow> process_chars r' cs)"

definition process_line :: "reader_obj \<Rightarrow> string \<Rightarrow> csv_error + reader_obj" where
  "process_line r line =
     (case process_chars r line of Inl e \<Rightarrow> Inl e | Inr r' \<Rightarrow> parse_process_char r' None)"

text \<open>
  All the rows the reader yields from the remaining lines, the parser being in state \<open>r\<close>.
  A row is complete when the parser is back in \<open>START_RECORD\<close> after a line; input that
  ends inside a row yields what was read so far.
\<close>

fun reader_rows :: "reader_obj \<Rightarrow> string list \<Rightarrow> csv_error + string list list" where
  "reader_rows r [] =
     (if p_field r \<noteq> [] \<or> p_state r = IN_QUOTED_FIELD then Inr [p_fields (parse_save_field r)] else Inr [])"
| "reader_rows r (line # rest) =
     (case process_line r line of
        Inl e \<Rightarrow> Inl e
      | Inr r' \<Rightarrow>
          if p_state r' = START_RECORD
          then (case reader_rows parse_reset rest of Inl e \<Rightarrow> Inl e | Inr rows \<Rightarrow> Inr (p_fields r' # rows))
          else reader_rows r' rest)"

definition csv_reader :: "string \<Rightarrow> csv_error + string list list" where
  "csv_reader csv_string = reader_rows parse_reset (split_lines csv_string)"

text \<open>What a \<open>DictReader\<close> row holds: a string per cell, \<open>None\<close> for a header field the
  row is too short for, and the list of surplus cells under the key \<open>None\<close>.\<close>

datatype rval = RNone | RStr string | RRest "string list"

type_synonym rdict = "(string option \<times> rval) list"

definition dict_reader_row :: "string list \<Rightarrow> string list \<Rightarrow> rdict" where
  "dict_reader_row fieldnames row =
     (let d = py_dict (zip (map Some fieldnames) (map RStr row));
          lf = length fieldnames; lr = length row
      in if lf < lr then dict_set d None (RRest (drop lf row))
         else if lf > lr then foldl (\<lambda>d key. dict_set d (Some key) RNone) d (drop lr fieldnames)
         else d)"

definition dict_reader :: "string \<Rightarrow> csv_error + rdict list" where
  "dict_reader csv_string =
     (case csv_reader csv_string of
        Inl e \<Rightarrow> Inl e
      | Inr [] \<Rightarrow> Inr []
      | Inr (fieldnames # rows) \<Rightarrow>
          Inr (map (dict_reader_row fieldnames) (filter (\<lambda>row. row \<noteq> []) rows)))"

section \<open>utils/data\_handler.py\<close>

definition convert_records_to_csv_string :: "pydict list \<Rightarrow> string list option \<Rightarrow> string" where
  "convert_records_to_csv_string records field_order =
     (if records = [] then []
      else
        let fieldnames =
              (case field_order of
                 Some fo \<Rightarrow> if fo \<noteq> [] then fo else map fst (hd records)
               | None \<Rightarrow> map fst (hd records))
        in if fieldnames = [] then []
           else dw_writeheader fieldnames @ dw_writerows fieldnames records)"

definition parse_csv_string_to_records :: "string \<Rightarrow> csv_error + rdict list" where
  "parse_csv_string_to_records csv_string =
     (if py_strip csv_string = [] then Inr [] else dict_reader csv_string)"

text \<open>The CSV branch of \<open>read_file_data_for_bulk\<close>, on the decoded file content: every
  empty string becomes \<open>None\<close>.\<close>

definition read_file_data_for_bulk_csv :: "string \<Rightarrow> csv_error + rdict list" where
  "read_file_data_for_bulk_csv decoded_content =
     (case dict_reader decoded_content of
        Inl e \<Rightarrow> Inl e
      | Inr rows \<Rightarrow> Inr (map (\<lambda>row. map (\<lambda>(k, v). (k, if v = RStr [] then RNone else v)) row) rows))"

section \<open>salesforce\_standard.py: single-record operations with retry\<close>

text \<open>
  The Salesforce session \<open>sf\<close> is the environment: what a call returns or raises may
  depend on everything that happened before, so each operation of \<open>sf.Account\<close> is a
  function of the history of events and of its arguments. The operations below return
  their result together with the extended history; \<open>time.sleep\<close> and reading the wall
  clock are events too. An exception is represented by its message \<open>str(e)\<close>.
\<close>

datatype 'a outcome = Raises string | Returns 'a

record create_response =
  success :: bool
  resp_id :: "string option"

datatype sf_call =
  AccountCreate pydict | AccountUpdate string pydict | AccountDelete string

datatype event = Call sf_call | Sleep int | Now

record salesforce =
  account_create :: "event list \<Rightarrow> pydict \<Rightarrow> create_response outcome"
  account_update :: "event list \<Rightarrow> string \<Rightarrow> pydict \<Rightarrow> int outcome"
  account_delete :: "event list \<Rightarrow> string \<Rightarrow> int outcome"
  clock :: "event list \<Rightarrow> string"

definition BATCH_SIZE :: nat where "BATCH_SIZE = 200"
definition RETRY_ATTEMPTS :: int where "RETRY_ATTEMPTS = 3"
definition RETRY_DELAY :: int where "RETRY_DELAY = 5"

text \<open>\<open>str(KeyError('id'))\<close>, raised by \<open>response['id']\<close> on a response without an id.\<close>

definition key_error_id :: string where
  "key_error_id = [CHR 0x27, CHR ''i'', CHR ''d'', CHR 0x27]"

text \<open>The body of the \<open>try\<close> block of \<open>insert_with_retry\<close>: \<open>Inl\<close> is an exception raised
  in it (by the call, or by formatting the id for the log line), \<open>Inr\<close> the pair it
  returns.\<close>

definition try_insert ::
  "salesforce \<Rightarrow> event list \<Rightarrow> pydict \<Rightarrow> string + (create_response option \<times> string option)" where
  "try_insert sf tr record =
     (case account_create sf tr record of
        Raises e \<Rightarrow> Inl e
      | Returns response \<Rightarrow>
          if success response
          then (case resp_id response of
                  None \<Rightarrow> Inl key_error_id
                | Some i \<Rightarrow> Inr (Some response, None))
          else Inr (None, Some ''Insert failed''))"

fun insert_attempts ::
  "salesforce \<Rightarrow> pydict \<Rightarrow> int \<Rightarrow> nat list \<Rightarrow> event list
     \<Rightarrow> (create_response option \<times> string option) \<times> event list" where
  "insert_attempts sf record max_attempts [] tr = ((None, Some ''Max retry attempts reached''), tr)"
| "insert_attempts sf record max_attempts (attempt # rest) tr =
     (case try_insert sf tr record of
        Inr result \<Rightarrow> (result, tr @ [Call (AccountCreate record)])
      | Inl e \<Rightarrow>
          if py_in ''STORAGE_LIMIT_EXCEEDED'' e
          then ((None, Some ''Storage limit exceeded''), tr @ [Call (AccountCreate record)])
          else if int attempt < max_attempts - 1
          then insert_attempts sf record max_attempts rest
                 (tr @ [Call (AccountCreate record), Sleep (RETRY_DELAY * (int attempt + 1))])
          else ((None, Some e), tr @ [Call (AccountCreate record)]))"

text \<open>\<open>range(max_attempts)\<close> is empty for a non-positive bound.\<close>

definition py_range :: "int \<Rightarrow> nat list" where
  "py_range n = [0..<nat n]"

definition insert_with_retry ::
  "salesforce \<Rightarrow> pydict \<Rightarrow> int \<Rightarrow> event list
     \<Rightarrow> (create_response option \<times> string option) \<times> event list" where
  "insert_with_retry sf record max_attempts tr =
     insert_attempts sf record max_attempts (py_range max_attempts) tr"

definition try_update :: "salesforce \<Rightarrow> event list \<Rightarrow> string \<Rightarrow> pydict \<Rightarrow> string + (bool \<times> string option)" where
  "try_update sf tr record_id update_data =
     (case account_update sf tr record_id update_data of
        Raises e \<Rightarrow> Inl e
      | Returns response \<Rightarrow>
          if response = 204 then Inr (True, None)
          else Inr (False, Some (''Update failed with status code: '' @ str_int response)))"

fun update_attempts ::
  "salesforce \<Rightarrow> string \<Rightarrow> pydict \<Rightarrow> int \<Rightarrow> nat list \<Rightarrow> event list
     \<Rightarrow> (bool \<times> string option) \<times> event list" where
  "update_attempts sf record_id update_data max_attempts [] tr =
     ((False, Some ''Max retry attempts reached''), tr)"
| "update_attempts sf record_id update_data max_attempts (attempt # rest) tr =
     (case try_update sf tr record_id update_data of
        Inr result \<Rightarrow> (result, tr @ [Call (AccountUpdate record_id update_data)])
      | Inl e \<Rightarrow>
          if py_in ''ENTITY_IS_DELETED'' e
          then ((False, Some ''Entity is deleted''), tr @ [Call (AccountUpdate record_id update_data)])
          else if int attempt < max_attempts - 1
          then update_attempts sf record_id update_data max_attempts rest
                 (tr @ [Call (AccountUpdate record_id update_data),
                        Sleep (RETRY_DELAY * (int attempt + 1))])
          else ((False, Some e), tr @ [Call (AccountUpdate record_id update_data)]))"

definition update_record_by_id ::
  "salesforce \<Rightarrow> string \<Rightarrow> pydict \<Rightarrow> int \<Rightarrow> event list \<Rightarrow> (bool \<times> string option) \<times> event list" where
  "update_record_by_id sf record_id update_data max_attempts tr =
     update_attempts sf record_id update_data max_attempts (py_range max_attempts) tr"

definition try_delete :: "salesforce \<Rightarrow> event list \<Rightarrow> string \<Rightarrow> string + (bool \<times> string option)" where
  "try_delete sf tr record_id =
     (case account_delete sf tr record_id of
        Raises e \<Rightarrow> Inl e
      | Returns response \<Rightarrow>
          if response = 204 then Inr (True, None)
          else Inr (False, Some (''Delete failed with status code: '' @ str_int response)))"

fun delete_attempts ::
  "salesforce \<Rightarrow> string \<Rightarrow> int \<Rightarrow> nat list \<Rightarrow> event list \<Rightarrow> (bool \<times> string option) \<times> event list" where
  "delete_attempts sf record_id max_attempts [] tr = ((False, Some ''Max retry attempts reached''), tr)"
| "delete_attempts sf record_id max_attempts (attempt # rest) tr =
     (case try_delete sf tr record_id of
        Inr result \<Rightarrow> (result, tr @ [Call (AccountDelete record_id)])
      | Inl e \<Rightarrow>
          if int attempt < max_attempts - 1
          then delete_attempts sf record_id max_attempts rest
                 (tr @ [Call (AccountDelete record_id), Sleep (RETRY_DELAY * (int attempt + 1))])
          else ((False, Some e), tr @ [Call (AccountDelete record_id)]))"

definition delete_record_by_id ::
  "salesforce \<Rightarrow> string \<Rightarrow> int \<Rightarrow> event list \<Rightarrow> (bool \<times> string option) \<times> event list" where
  "delete_record_by_id sf record_id max_attempts tr =
     delete_attempts sf record_id max_attempts (py_range max_attempts) tr"

subsection \<open>Batch insert\<close>

text \<open>\<open>rnd\<close> is the number \<open>random.randint(1000, 9999)\<close> draws for the probe record's name.
  Any exception inside the probe makes the check answer \<open>False\<close>.\<close>

definition check_storage_availability :: "salesforce \<Rightarrow> int \<Rightarrow> event list \<Rightarrow> bool \<times> event list" where
  "check_storage_availability sf rnd tr =
     (let test_record = [(''Name'', PStr (''Test_Storage_Check_'' @ str_int rnd))];
          tr1 = tr @ [Call (AccountCreate test_record)]
      in case account_create sf tr test_record of
           Raises e \<Rightarrow> (False, tr1)
         | Returns response \<Rightarrow>
             if success response
             then (case resp_id response of
                     None \<Rightarrow> (False, tr1)
                   | Some i \<Rightarrow>
                       (case account_delete sf tr1 i of
                          Raises e \<Rightarrow> (False, tr1 @ [Call (AccountDelete i)])
                        | Returns r \<Rightarrow> (True, tr1 @ [Call (AccountDelete i)])))
             else (False, tr1))"

record failed_record =
  fr_record :: pydict
  fr_error :: string
  fr_timestamp :: string

text \<open>\<open>FailedRecord(record, error)\<close> reads the clock for its timestamp.\<close>

definition FailedRecord :: "salesforce \<Rightarrow> pydict \<Rightarrow> string \<Rightarrow> event list \<Rightarrow> failed_record \<times> event list" where
  "FailedRecord sf record error tr =
     (\<lparr>fr_record = record, fr_error = error, fr_timestamp = clock sf tr\<rparr>, tr @ [Now])"

text \<open>\<open>[FailedRecord(r, 'Storage limit exceeded') for r in rs]\<close>.\<close>

fun fail_all :: "salesforce \<Rightarrow> pydict list \<Rightarrow> event list \<Rightarrow> failed_record list \<times> event list" where
  "fail_all sf [] tr = ([], tr)"
| "fail_all sf (r # rs) tr =
     (case FailedRecord sf r ''Storage limit exceeded'' tr of
        (f, tr1) \<Rightarrow> (case fail_all sf rs tr1 of (fs, tr2) \<Rightarrow> (f # fs, tr2)))"

text \<open>The dictionary stored for an inserted record: id, name and timestamp, then updated
  with the record's own fields.\<close>

definition record_data :: "string \<Rightarrow> pydict \<Rightarrow> string \<Rightarrow> pydict" where
  "record_data rid record ts =
     foldl (\<lambda>d (k, v). dict_set d k v)
       [(''id'', PStr rid), (''name'', dict_get record ''Name'' PNone), (''timestamp'', PStr ts)]
       record"

type_synonym batch_state = "pydict list \<times> failed_record list \<times> event list"

text \<open>
  The inner loop over one chunk, \<open>i\<close> being the index of the chunk's first record. The
  flag of the result says whether the function returned from inside the loop. \<open>Inl\<close> is
  the \<open>TypeError\<close> of \<open>response['id']\<close> when \<open>insert_with_retry\<close> gave neither a response
  nor a non-empty error.
\<close>

fun process_batch ::
  "salesforce \<Rightarrow> pydict list \<Rightarrow> nat \<Rightarrow> pydict list \<Rightarrow> batch_state \<Rightarrow> string + (bool \<times> batch_state)" where
  "process_batch sf records i [] st = Inr (False, st)"
| "process_batch sf records i (record # batch) (successful_records, failed_records, tr) =
     (case insert_with_retry sf record RETRY_ATTEMPTS tr of
        ((response, error), tr1) \<Rightarrow>
          if error \<noteq> None \<and> error \<noteq> Some []
          then
            (case FailedRecord sf record (the error) tr1 of
               (f, tr2) \<Rightarrow>
                 if py_in ''Storage limit exceeded'' (the error)
                 then
                   (let remaining_records = drop i records
                    in case fail_all sf remaining_records tr2 of
                         (fs, tr3) \<Rightarrow> Inr (True, (successful_records, failed_records @ [f] @ fs, tr3)))
                 else process_batch sf records i batch (successful_records, failed_records @ [f], tr2))
          else
            (case response of
               None \<Rightarrow> Inl ''TypeError''
             | Some resp \<Rightarrow>
                 (case resp_id resp of
                    None \<Rightarrow> Inl key_error_id
                  | Some rid \<Rightarrow>
                      process_batch sf records i batch
                        (successful_records @ [record_data rid record (clock sf tr1)],
                         failed_records, tr1 @ [Now]))))"

text \<open>\<open>range(0, n, step)\<close>.\<close>

definition py_range_step :: "nat \<Rightarrow> nat \<Rightarrow> nat list" where
  "py_range_step n step = map (\<lambda>j. j * step) [0..<(n + step - 1) div step]"

fun process_chunks :: "salesforce \<Rightarrow> pydict list \<Rightarrow> nat list \<Rightarrow> batch_state \<Rightarrow> string + batch_state" where
  "process_chunks sf records [] st = Inr st"
| "process_chunks sf records (i # starts) st =
     (case process_batch sf records i (take BATCH_SIZE (drop i records)) st of
        Inl e \<Rightarrow> Inl e
      | Inr (True, st') \<Rightarrow> Inr st'
      | Inr (False, (successful_records, failed_records, tr)) \<Rightarrow>
          process_chunks sf records starts (successful_records, failed_records, tr @ [Sleep 2]))"

definition batch_insert_data :: "salesforce \<Rightarrow> int \<Rightarrow> pydict list \<Rightarrow> event list \<Rightarrow> string + batch_state" where
  "batch_insert_data sf rnd records tr =
     (case check_storage_availability sf rnd tr of
        (False, tr1) \<Rightarrow> (case fail_all sf records tr1 of (fs, tr2) \<Rightarrow> Inr ([], fs, tr2))
      | (True, tr1) \<Rightarrow>
          process_chunks sf records (py_range_step (length records) BATCH_SIZE) ([], [], tr1))"

subsection \<open>The back-off schedule and example sessions\<close>

text \<open>The history of \<open>k\<close> failed attempts to create \<open>record\<close>, each followed by the pause
  \<open>RETRY_DELAY * attempt_number\<close>.\<close>

fun retry_history :: "pydict \<Rightarrow> nat \<Rightarrow> event list" where
  "retry_history record 0 = []"
| "retry_history record (Suc k) =
     retry_history record k @ [Call (AccountCreate record), Sleep (RETRY_DELAY * (int k + 1))]"

definition acme :: pydict where
  "acme = [(''Name'', PStr ''Acme'')]"

definition beta :: pydict where
  "beta = [(''Name'', PStr ''Beta'')]"

text \<open>A session whose every call times out.\<close>

definition sf_timeout :: salesforce where
  "sf_timeout =
     \<lparr>account_create = (\<lambda>tr r. Raises ''Connection timed out''),
      account_update = (\<lambda>tr i d. Raises ''Connection timed out''),
      account_delete = (\<lambda>tr i. Raises ''Connection timed out''),
      clock = (\<lambda>tr. ''2024-01-01T00:00:00'')\<rparr>"

text \<open>A session that times out on the first attempt and reports exhausted storage from
  the second attempt on.\<close>

definition sf_full_later :: salesforce where
  "sf_full_later =
     \<lparr>account_create = (\<lambda>tr r. if tr = [] then Raises ''Connection timed out''
                               else Raises ''STORAGE_LIMIT_EXCEEDED: storage limit exceeded''),
      account_update = (\<lambda>tr i d. Returns 204),
      account_delete = (\<lambda>tr i. Returns 204),
      clock = (\<lambda>tr. ''2024-01-01T00:00:00'')\<rparr>"

text \<open>A session with room for everything but the record \<open>beta\<close>.\<close>

definition sf_full_at_beta :: salesforce where
  "sf_full_at_beta =
     \<lparr>account_create = (\<lambda>tr r. if r = beta then Raises ''STORAGE_LIMIT_EXCEEDED: storage limit exceeded''
                               else Returns \<lparr>success = True, resp_id = Some ''001A''\<rparr>),
      account_update = (\<lambda>tr i d. Returns 204),
      account_delete = (\<lambda>tr i. Returns 204),
      clock = (\<lambda>tr. ''2024-01-01T00:00:00'')\<rparr>"

text \<open>A session in which the record addressed has already been deleted.\<close>

definition sf_entity_deleted :: salesforce where
  "sf_entity_deleted =
     \<lparr>account_create = (\<lambda>tr r. Returns \<lparr>success = True, resp_id = Some ''001A''\<rparr>),
      account_update = (\<lambda>tr i d. Raises ''ENTITY_IS_DELETED: entity is deleted''),
      account_delete = (\<lambda>tr i. Raises ''ENTITY_IS_DELETED: entity is deleted''),
      clock = (\<lambda>tr. ''2024-01-01T00:00:00'')\<rparr>"

section \<open>Properties of the single-record operations\<close>

lemma try_insert_Raises:
  "account_create sf tr record = Raises e \<Longrightarrow> try_insert sf tr record = Inl e"
  by (simp add: try_insert_def)

lemma insert_attempts_skip:
  assumes "int n \<le> max_attempts" and "k < n"
    and "\<forall>j<k. \<exists>e. account_create sf (tr @ retry_history record j) record = Raises e
                 \<and> \<not> py_in ''STORAGE_LIMIT_EXCEEDED'' e"
  shows "insert_attempts sf record max_attempts [0..<n] tr =
         insert_attempts sf record max_attempts [k..<n] (tr @ retry_history record k)"
  using assms(2,3)
proof (induction k)
  case 0
  then show ?case by simp
next
  case (Suc k)
  from Suc.prems obtain e where e:
    "account_create sf (tr @ retry_history record k) record = Raises e"
    "\<not> py_in ''STORAGE_LIMIT_EXCEEDED'' e"
    by blast
  have lt: "int k < max_attempts - 1"
    using Suc.prems(1) assms(1) by linarith
  have split: "[k..<n] = k # [Suc k..<n]"
    using Suc.prems(1) by (simp add: upt_conv_Cons)
  have "insert_attempts sf record max_attempts [0..<n] tr =
        insert_attempts sf record max_attempts [k..<n] (tr @ retry_history record k)"
    using Suc.IH Suc.prems by simp
  also have "\<dots> = insert_attempts sf record max_attempts [Suc k..<n]
                     (tr @ retry_history record (Suc k))"
    using e lt by (simp add: split try_insert_Raises)
  finally show ?case .
qed

text \<open>
  Claim C7. For every record and every \<open>max_attempts \<ge> 1\<close>: when the first \<open>k\<close> attempts
  raise exceptions that are not storage-limit errors, they are retried with the pauses
  \<open>RETRY_DELAY * 1, \<dots>, RETRY_DELAY * k\<close>; if attempt \<open>k + 1\<close> then raises a storage-limit
  error, \<open>insert_with_retry\<close> returns at once with no response, no pause and no further
  attempt; and if attempt \<open>k + 1\<close> is the last one (\<open>k + 1 = max_attempts\<close>) and raises any
  other exception, it returns that last exception's string with no response.
\<close>

theorem insert_with_retry_policy:
  assumes "1 \<le> max_attempts" and "int k < max_attempts"
    and "\<forall>j<k. \<exists>e'. account_create sf (tr @ retry_history record j) record = Raises e'
                 \<and> \<not> py_in ''STORAGE_LIMIT_EXCEEDED'' e'"
    and "account_create sf (tr @ retry_history record k) record = Raises e"
  shows "(py_in ''STORAGE_LIMIT_EXCEEDED'' e \<longrightarrow>
            insert_with_retry sf record max_attempts tr =
              ((None, Some ''Storage limit exceeded''),
               tr @ retry_history record k @ [Call (AccountCreate record)]))
       \<and> (\<not> py_in ''STORAGE_LIMIT_EXCEEDED'' e \<and> int k = max_attempts - 1 \<longrightarrow>
            insert_with_retry sf record max_attempts tr =
              ((None, Some e), tr @ retry_history record k @ [Call (AccountCreate record)]))"
proof -
  define n where "n = nat max_attempts"
  have n: "int n \<le> max_attempts" "k < n"
    using assms(1,2) by (simp_all add: n_def)
  have split: "[k..<n] = k # [Suc k..<n]"
    using n(2) by (simp add: upt_conv_Cons)
  have "insert_with_retry sf record max_attempts tr =
        insert_attempts sf record max_attempts [k..<n] (tr @ retry_history record k)"
    unfolding insert_with_retry_def py_range_def n_def [symmetric]
    using insert_attempts_skip [OF n assms(3)] .
  then show ?thesis
    using assms(4) by (simp add: split try_insert_Raises)
qed

theorem insert_with_retry_policy_witness:
  "insert_with_retry sf_timeout acme 3 [] =
     ((None, Some ''Connection timed out''),
      [Call (AccountCreate acme), Sleep 5, Call (AccountCreate acme), Sleep 10,
       Call (AccountCreate acme)])
   \<and> insert_with_retry sf_full_later acme 3 [] =
     ((None, Some ''Storage limit exceeded''),
      [Call (AccountCreate acme), Sleep 5, Call (AccountCreate acme)])"
proof -
  have a: "\<forall>j<2. \<exists>e'. account_create sf_timeout ([] @ retry_history acme j) acme = Raises e'
                 \<and> \<not> py_in ''STORAGE_LIMIT_EXCEEDED'' e'"
    by (simp add: sf_timeout_def)
  have b: "account_create sf_timeout ([] @ retry_history acme 2) acme = Raises ''Connection timed out''"
    by (simp add: sf_timeout_def)
  have c: "\<forall>j<1. \<exists>e'. account_create sf_full_later ([] @ retry_history acme j) acme = Raises e'
                 \<and> \<not> py_in ''STORAGE_LIMIT_EXCEEDED'' e'"
    by (simp add: sf_full_later_def)
  have d: "account_create sf_full_later ([] @ retry_history acme 1) acme =
             Raises ''STORAGE_LIMIT_EXCEEDED: storage limit exceeded''"
    by (simp add: sf_full_later_def)
  show ?thesis
    using insert_with_retry_policy [of 3 2 sf_timeout "[]" acme "''Connection timed out''", OF _ _ a b]
          insert_with_retry_policy [of 3 1 sf_full_later "[]" acme
             "''STORAGE_LIMIT_EXCEEDED: storage limit exceeded''", OF _ _ c d]
    by (simp add: numeral_2_eq_2 RETRY_DELAY_def)
qed

text \<open>
  Claim C8. With the records \<open>acme\<close> and \<open>beta\<close> in one chunk, \<open>acme\<close> inserted and the
  storage limit hit at \<open>beta\<close>, \<open>batch_insert_data\<close> returns \<open>acme\<close> among the successes
  and, among the failures, \<open>beta\<close> followed by every record of the chunk from its first
  one on: \<open>acme\<close>, although inserted, and \<open>beta\<close> a second time.
\<close>

theorem batch_insert_data_marks_chunk_from_start:
  "batch_insert_data sf_full_at_beta 1234 [acme, beta] [] =
     Inr ([[(''id'', PStr ''001A''), (''name'', PStr ''Acme''),
            (''timestamp'', PStr ''2024-01-01T00:00:00''), (''Name'', PStr ''Acme'')]],
          [\<lparr>fr_record = beta, fr_error = ''Storage limit exceeded'',
              fr_timestamp = ''2024-01-01T00:00:00''\<rparr>,
           \<lparr>fr_record = acme, fr_error = ''Storage limit exceeded'',
              fr_timestamp = ''2024-01-01T00:00:00''\<rparr>,
           \<lparr>fr_record = beta, fr_error = ''Storage limit exceeded'',
              fr_timestamp = ''2024-01-01T00:00:00''\<rparr>],
          [Call (AccountCreate [(''Name'', PStr ''Test_Storage_Check_1234'')]),
           Call (AccountDelete ''001A''),
           Call (AccountCreate acme), Now,
           Call (AccountCreate beta), Now, Now, Now])"
  by code_simp

text \<open>
  Claim C9. On a record that has already been deleted, \<open>update_record_by_id\<close> gives up
  after its first call, while \<open>delete_record_by_id\<close> with three attempts calls three
  times, pausing 5 and 10 seconds, before it reports the failure.
\<close>

theorem delete_record_by_id_retries_deleted_entity:
  "update_record_by_id sf_entity_deleted ''001A'' acme 3 [] =
     ((False, Some ''Entity is deleted''), [Call (AccountUpdate ''001A'' acme)])
   \<and> delete_record_by_id sf_entity_deleted ''001A'' 3 [] =
     ((False, Some ''ENTITY_IS_DELETED: entity is deleted''),
      [Call (AccountDelete ''001A''), Sleep 5, Call (AccountDelete ''001A''), Sleep 10,
       Call (AccountDelete ''001A'')])"
  by code_simp

end
